theory Spec2Isabelle
  imports Complex_Main
begin

section \<open>Common data: identifiers, numbers, dates, responses\<close>

text \<open>
  Document identifiers (ObjectId) are natural numbers. The identifiers of the requester, of
  the URL and of the professional are taken as ObjectIds already, so their \<open>isMongoId\<close>
  validators have no branch here; the meal identifiers of an order request are the strings of
  the request body, because the order handler compares them as strings. A JavaScript Number
  is a rational that a binary64 value can hold; sums and products are rounded to binary64
  where the handlers compute them. A valid Date is its time value, an integer count of
  milliseconds; \<open>new Date()\<close> is read once per request, as a \<open>clock\<close> that also carries the
  calendar fields the pre-save hooks read from it. The environment of a request holds this
  clock, the value of \<open>Math.random()\<close> and the identifier that a document constructed in the
  request receives.
\<close>

type_synonym objectId = nat
type_synonym number = rat
type_synonym date = int

record clock =
  getTime :: date
  getFullYear :: nat
  getMonth :: nat
  getDate :: nat

record env =
  now :: clock
  random :: rat
  newObjectId :: objectId

datatype js_error = RangeError | TypeError | ValidationError

record 'a response =
  r_status :: nat
  r_success :: bool
  r_message :: string
  r_errors :: "string list"
  r_data :: "'a option"

definition failure :: "nat \<Rightarrow> string \<Rightarrow> 'a response" where
  "failure code msg =
     \<lparr>r_status = code, r_success = False, r_message = msg, r_errors = [], r_data = None\<rparr>"

definition validation_errors :: "string list \<Rightarrow> 'a response" where
  "validation_errors errs =
     \<lparr>r_status = 400, r_success = False, r_message = ''Validation errors'',
      r_errors = errs, r_data = None\<rparr>"

definition ok :: "nat \<Rightarrow> string \<Rightarrow> 'a \<Rightarrow> 'a response" where
  "ok code msg d =
     \<lparr>r_status = code, r_success = True, r_message = msg, r_errors = [], r_data = Some d\<rparr>"

subsection \<open>Numbers: rounding to binary64\<close>

text \<open>
  The value of an arithmetic operation is the exact result rounded to the nearest binary64
  value, ties to the even significand; below \<open>2^-1022\<close> the spacing is that of the subnormal
  numbers. Results beyond the largest finite binary64 value, which the code turns into
  \<open>Infinity\<close>, are outside the model.
\<close>

function bit_length :: "nat \<Rightarrow> nat" where
  "bit_length n = (if n = 0 then 0 else Suc (bit_length (n div 2)))"
  by pat_completeness auto
termination
  by (relation "measure id") auto

declare bit_length.simps [simp del]

definition pow2 :: "int \<Rightarrow> rat" where
  "pow2 k = (if 0 \<le> k then 2 ^ nat k else 1 / 2 ^ nat (- k))"

definition floor_log2 :: "rat \<Rightarrow> int" where
  "floor_log2 a =
     (if 1 \<le> a then int (bit_length (nat \<lfloor>a\<rfloor>)) - 1
      else - int (bit_length (nat (\<lceil>1 / a\<rceil> - 1))))"

definition round_half_even :: "rat \<Rightarrow> int" where
  "round_half_even m =
     (let f = \<lfloor>m\<rfloor>; d = m - of_int f
      in if d < 1 / 2 then f else if 1 / 2 < d then f + 1 else if even f then f else f + 1)"

definition binary64 :: "rat \<Rightarrow> number" where
  "binary64 x =
     (if x = 0 then 0
      else let a = \<bar>x\<bar>;
               e = max (floor_log2 a) (- 1022);
               ulp = pow2 (e - 52)
           in sgn x * of_int (round_half_even (a / ulp)) * ulp)"

definition js_add :: "number \<Rightarrow> number \<Rightarrow> number" where
  "js_add a b = binary64 (a + b)"

definition js_mul :: "number \<Rightarrow> number \<Rightarrow> number" where
  "js_mul a b = binary64 (a * b)"

subsection \<open>Strings: number formatting, padStart, slice, trim\<close>

definition digit_char :: "nat \<Rightarrow> char" where
  "digit_char d = ''0123456789'' ! d"

function toString :: "nat \<Rightarrow> string" where
  "toString n = (if n < 10 then [digit_char n] else toString (n div 10) @ [digit_char (n mod 10)])"
  by pat_completeness auto
termination
  by (relation "measure id") auto

declare toString.simps [simp del]

definition padStart :: "nat \<Rightarrow> char \<Rightarrow> string \<Rightarrow> string" where
  "padStart n c s = replicate (n - length s) c @ s"

definition slice_last :: "nat \<Rightarrow> string \<Rightarrow> string" where
  "slice_last n s = drop (length s - n) s"

definition is_space :: "char \<Rightarrow> bool" where
  "is_space c = (c \<in> set [CHR '' '', CHR 0x09, CHR 0x0A, CHR 0x0B, CHR 0x0C, CHR 0x0D])"

definition trim :: "string \<Rightarrow> string" where
  "trim s = rev (dropWhile is_space (rev (dropWhile is_space s)))"

subsection \<open>ObjectIds and their strings\<close>

text \<open>
  \<open>isMongoId\<close> accepts the strings of 24 hexadecimal digits in either case. Casting such a
  string to an ObjectId reads the digits whatever their case; \<open>toString()\<close> of an ObjectId
  prints 24 digits in lower case.
\<close>

definition hex_digits :: string where
  "hex_digits = ''0123456789abcdef''"

definition hex_value :: "char \<Rightarrow> nat option" where
  "hex_value c =
     (if c \<in> set hex_digits then Some (length (takeWhile (\<lambda>d. d \<noteq> c) hex_digits))
      else if c \<in> set ''ABCDEF'' then Some (10 + length (takeWhile (\<lambda>d. d \<noteq> c) ''ABCDEF''))
      else None)"

definition isMongoId :: "string \<Rightarrow> bool" where
  "isMongoId s = (length s = 24 \<and> list_all (\<lambda>c. hex_value c \<noteq> None) s)"

definition castObjectId :: "string \<Rightarrow> objectId" where
  "castObjectId s = foldl (\<lambda>acc c. 16 * acc + (case hex_value c of None \<Rightarrow> 0 | Some v \<Rightarrow> v)) 0 s"

function toHex :: "nat \<Rightarrow> string" where
  "toHex n = (if n < 16 then [hex_digits ! n] else toHex (n div 16) @ [hex_digits ! (n mod 16)])"
  by pat_completeness auto
termination
  by (relation "measure id") auto

declare toHex.simps [simp del]

definition objectId_toString :: "objectId \<Rightarrow> string" where
  "objectId_toString i = padStart 24 CHR ''0'' (toHex i)"

definition date_stamp :: "clock \<Rightarrow> rat \<Rightarrow> string" where
  "date_stamp d rnd =
     (let year = slice_last 2 (toString (getFullYear d));
          month = padStart 2 CHR ''0'' (toString (getMonth d + 1));
          day = padStart 2 CHR ''0'' (toString (getDate d));
          rand = padStart 3 CHR ''0'' (toString (nat \<lfloor>js_mul rnd 1000\<rfloor>))
      in year @ month @ day @ rand)"

section \<open>Meals and orders\<close>

record meal =
  m_id :: objectId
  m_price :: number
  m_isActive :: bool

record order_item =
  oi_meal :: objectId
  oi_quantity :: int
  oi_price :: number
  oi_totalPrice :: number
  oi_specialInstructions :: "string option"

record address =
  street :: string
  city :: string
  county :: string
  postalCode :: "string option"
  coordinates :: "(number \<times> number) option"
  instructions :: "string option"

record contact =
  c_name :: string
  c_phone :: string
  c_email :: "string option"

datatype payment_status = PayPending | Paid | PayFailed | Refunded

datatype order_status =
  OPending | OConfirmed | Preparing | OutForDelivery | Delivered | OCancelled

record notification =
  n_type :: string
  n_message :: string
  n_sentAt :: date
  n_isRead :: bool

record order_rating =
  or_food :: number
  or_delivery :: number
  or_overall :: number
  or_comment :: "string option"
  or_date :: date

record order =
  o_id :: objectId
  o_user :: objectId
  o_orderNumber :: "string option"
  o_items :: "order_item list"
  o_subtotal :: number
  o_deliveryFee :: number
  o_tax :: number
  o_total :: number
  o_currency :: string
  o_deliveryAddress :: address
  o_contactInfo :: contact
  o_paymentMethod :: string
  o_paymentStatus :: payment_status
  o_orderStatus :: order_status
  o_estimatedDelivery :: "date option"
  o_actualDelivery :: "date option"
  o_specialInstructions :: "string option"
  o_allergies :: "string list"
  o_dietaryRestrictions :: "string list"
  o_isUrgent :: bool
  o_cancellationReason :: "string option"
  o_refundAmount :: "number option"
  o_refundReason :: "string option"
  o_rating :: "order_rating option"
  o_notifications :: "notification list"
  o_createdBy :: objectId
  o_createdAt :: "date option"
  o_updatedAt :: "date option"

text \<open>The \<open>type\<close> enumeration of the entries of \<open>orderSchema.notifications\<close>.\<close>

definition order_notification_types :: "string list" where
  "order_notification_types =
     [''order_confirmed'', ''preparing'', ''out_for_delivery'', ''delivered'', ''payment_received'']"

record order_summary =
  os_id :: objectId
  os_orderNumber :: "string option"
  os_total :: number
  os_currency :: string
  os_orderStatus :: order_status
  os_paymentStatus :: payment_status
  os_deliveryAddress :: address
  os_createdAt :: "date option"
  os_estimatedDelivery :: "date option"
  os_actualDelivery :: "date option"

text \<open>
  The document store: one list per collection. \<open>save\<close> first validates the document against
  the schema and rejects it with a ValidationError when a required path is missing or empty,
  a number is below its minimum or above its maximum, or a string is outside its
  enumeration. Only then it runs the schema's pre-save hook (a new document gets its number)
  and the \<open>timestamps\<close> option (\<open>createdAt\<close> on insertion, \<open>updatedAt\<close> on every save of a
  new or modified document); a new document (\<open>isNew\<close>) is then inserted, and a document that
  was loaded from the store replaces the stored one with its identifier. Every caller below
  modifies the document before saving it. A document that the handlers construct has no
  number yet when it is validated. The store's own failures are not modelled.
\<close>

definition store :: "('a \<Rightarrow> objectId) \<Rightarrow> bool \<Rightarrow> 'a \<Rightarrow> 'a list \<Rightarrow> 'a list" where
  "store key isNew doc coll =
     (if isNew then coll @ [doc] else map (\<lambda>x. if key x = key doc then doc else x) coll)"

definition order_pre_save :: "env \<Rightarrow> bool \<Rightarrow> order \<Rightarrow> order" where
  "order_pre_save e isNew ord =
     (let numbered =
            (if isNew then ord\<lparr>o_orderNumber := Some (''MH'' @ date_stamp (now e) (random e))\<rparr>
             else ord);
          created =
            (if isNew then numbered\<lparr>o_createdAt := Some (getTime (now e))\<rparr> else numbered)
      in created\<lparr>o_updatedAt := Some (getTime (now e))\<rparr>)"

definition valid_rating :: "number \<Rightarrow> bool" where
  "valid_rating r = (1 \<le> r \<and> r \<le> 5)"

definition order_validate :: "order \<Rightarrow> bool" where
  "order_validate ord =
     (o_orderNumber ord \<noteq> None
      \<and> list_all (\<lambda>i. 1 \<le> oi_quantity i) (o_items ord)
      \<and> street (o_deliveryAddress ord) \<noteq> [] \<and> city (o_deliveryAddress ord) \<noteq> []
      \<and> county (o_deliveryAddress ord) \<noteq> []
      \<and> c_name (o_contactInfo ord) \<noteq> [] \<and> c_phone (o_contactInfo ord) \<noteq> []
      \<and> o_paymentMethod ord \<in> set [''mpesa'', ''cash_on_delivery'', ''bank_transfer'', ''credit_card'']
      \<and> (case o_rating ord of
            None \<Rightarrow> True
          | Some r \<Rightarrow> valid_rating (or_food r) \<and> valid_rating (or_delivery r)
                        \<and> valid_rating (or_overall r))
      \<and> list_all (\<lambda>n. n_type n \<in> set order_notification_types) (o_notifications ord))"

definition order_save ::
  "env \<Rightarrow> bool \<Rightarrow> order \<Rightarrow> order list \<Rightarrow> js_error + order \<times> order list" where
  "order_save e isNew ord coll =
     (if \<not> order_validate ord then Inl ValidationError
      else let doc = order_pre_save e isNew ord in Inr (doc, store o_id isNew doc coll))"

definition order_getSummary :: "order \<Rightarrow> order_summary" where
  "order_getSummary ord =
     \<lparr>os_id = o_id ord, os_orderNumber = o_orderNumber ord, os_total = o_total ord,
      os_currency = o_currency ord, os_orderStatus = o_orderStatus ord,
      os_paymentStatus = o_paymentStatus ord, os_deliveryAddress = o_deliveryAddress ord,
      os_createdAt = o_createdAt ord, os_estimatedDelivery = o_estimatedDelivery ord,
      os_actualDelivery = o_actualDelivery ord\<rparr>"

definition order_canBeCancelled :: "order \<Rightarrow> bool" where
  "order_canBeCancelled ord =
     (let cancellableStatuses = [OPending, OConfirmed]
      in o_orderStatus ord \<in> set cancellableStatuses)"

definition calculateDeliveryTime ::
  "env \<Rightarrow> order \<Rightarrow> order list \<Rightarrow> js_error + order \<times> order list" where
  "calculateDeliveryTime e ord coll =
     (let estimatedDelivery = getTime (now e) + 45 * 60 * 1000
      in order_save e False (ord\<lparr>o_estimatedDelivery := Some estimatedDelivery\<rparr>) coll)"

subsection \<open>POST /api/orders\<close>

record item_request =
  ir_mealId :: string
  ir_quantity :: int
  ir_specialInstructions :: "string option"

record order_request =
  q_items :: "item_request list"
  q_deliveryAddress :: address
  q_contactInfo :: contact
  q_paymentMethod :: string
  q_specialInstructions :: "string option"
  q_allergies :: "string list"
  q_dietaryRestrictions :: "string list"

definition check :: "bool \<Rightarrow> string \<Rightarrow> string list" where
  "check valid msg = (if valid then [] else [msg])"

definition order_validators :: "order_request \<Rightarrow> string list" where
  "order_validators q =
     check (1 \<le> length (q_items q)) ''At least one item is required''
     @ concat (map (\<lambda>i. check (isMongoId (ir_mealId i)) ''Invalid meal ID'') (q_items q))
     @ concat (map (\<lambda>i. check (1 \<le> ir_quantity i) ''Quantity must be at least 1'') (q_items q))
     @ check (street (q_deliveryAddress q) \<noteq> []) ''Street address is required''
     @ check (city (q_deliveryAddress q) \<noteq> []) ''City is required''
     @ check (county (q_deliveryAddress q) \<noteq> []) ''County is required''
     @ check (c_name (q_contactInfo q) \<noteq> []) ''Contact name is required''
     @ check (c_phone (q_contactInfo q) \<noteq> []) ''Contact phone is required''
     @ check (q_paymentMethod q \<in> set [''mpesa'', ''cash_on_delivery'', ''bank_transfer'', ''credit_card''])
         ''Invalid payment method''"

text \<open>
  One order line: \<open>meals.find\<close> compares the string of each resolved meal's identifier with
  the string of the request and yields \<open>undefined\<close> when none is equal; reading \<open>meal.price\<close>
  then throws.
\<close>

definition make_order_item :: "meal list \<Rightarrow> item_request \<Rightarrow> js_error + order_item" where
  "make_order_item meals item =
     (case List.find (\<lambda>m. objectId_toString (m_id m) = ir_mealId item) meals of
        None \<Rightarrow> Inl TypeError
      | Some meal \<Rightarrow>
          Inr \<lparr>oi_meal = castObjectId (ir_mealId item), oi_quantity = ir_quantity item,
               oi_price = m_price meal,
               oi_totalPrice = js_mul (m_price meal) (of_int (ir_quantity item)),
               oi_specialInstructions = ir_specialInstructions item\<rparr>)"

fun map_items :: "meal list \<Rightarrow> item_request list \<Rightarrow> js_error + order_item list" where
  "map_items meals [] = Inr []"
| "map_items meals (item # rest) =
     (case make_order_item meals item of
        Inl err \<Rightarrow> Inl err
      | Inr oi \<Rightarrow> (case map_items meals rest of Inl err \<Rightarrow> Inl err | Inr ois \<Rightarrow> Inr (oi # ois)))"

text \<open>
  \<open>Meal.find({ _id: { $in: mealIds }, isActive: true })\<close>, the identifier strings of the
  request cast to ObjectIds.
\<close>

definition find_active_meals :: "meal list \<Rightarrow> string list \<Rightarrow> meal list" where
  "find_active_meals mealColl mealIds =
     filter (\<lambda>m. m_id m \<in> set (map castObjectId mealIds) \<and> m_isActive m) mealColl"

definition new_Order ::
  "objectId \<Rightarrow> objectId \<Rightarrow> order_item list \<Rightarrow> number \<Rightarrow> number \<Rightarrow> number \<Rightarrow> number \<Rightarrow>
   order_request \<Rightarrow> order" where
  "new_Order oid uid orderItems subtotal deliveryFee tax total' q =
     \<lparr>o_id = oid, o_user = uid, o_orderNumber = None, o_items = orderItems,
      o_subtotal = subtotal, o_deliveryFee = deliveryFee, o_tax = tax, o_total = total',
      o_currency = ''KES'', o_deliveryAddress = q_deliveryAddress q,
      o_contactInfo = q_contactInfo q, o_paymentMethod = q_paymentMethod q,
      o_paymentStatus = PayPending, o_orderStatus = OPending,
      o_estimatedDelivery = None, o_actualDelivery = None,
      o_specialInstructions = q_specialInstructions q, o_allergies = q_allergies q,
      o_dietaryRestrictions = q_dietaryRestrictions q, o_isUrgent = False,
      o_cancellationReason = None, o_refundAmount = None, o_refundReason = None,
      o_rating = None, o_notifications = [], o_createdBy = uid,
      o_createdAt = None, o_updatedAt = None\<rparr>"

text \<open>The totals of the order and the document that \<open>new Order\<close> constructs from them.\<close>

definition build_order :: "objectId \<Rightarrow> objectId \<Rightarrow> order_request \<Rightarrow> order_item list \<Rightarrow> order" where
  "build_order oid uid q orderItems =
     (let subtotal = foldl (\<lambda>sum item. js_add sum (oi_totalPrice item)) 0 orderItems;
          deliveryFee = (if subtotal > 1000 then 0 else 200);
          tax = js_mul subtotal (binary64 (16 / 100));
          total' = js_add (js_add subtotal deliveryFee) tax
      in new_Order oid uid orderItems subtotal deliveryFee tax total' q)"

definition post_orders ::
  "env \<Rightarrow> meal list \<Rightarrow> order list \<Rightarrow> objectId \<Rightarrow> order_request \<Rightarrow>
   order_summary response \<times> order list" where
  "post_orders e mealColl orders uid q =
     (let errors = order_validators q in
      if errors \<noteq> [] then (validation_errors errors, orders)
      else
        let items = q_items q;
            mealIds = map ir_mealId items;
            meals = find_active_meals mealColl mealIds
        in if length meals \<noteq> length items then (failure 400 ''Some meals are not available'', orders)
           else
             case map_items meals items of
               Inl err \<Rightarrow> (failure 500 ''Server error'', orders)
             | Inr orderItems \<Rightarrow>
                 let ord = build_order (newObjectId e) uid q orderItems
                 in case order_save e True ord orders of
                      Inl err \<Rightarrow> (failure 500 ''Server error'', orders)
                    | Inr (saved, orders1) \<Rightarrow>
                        (case calculateDeliveryTime e saved orders1 of
                           Inl err \<Rightarrow> (failure 500 ''Server error'', orders1)
                         | Inr (timed, orders2) \<Rightarrow>
                             (ok 201 ''Order created successfully'' (order_getSummary timed),
                              orders2)))"

subsection \<open>PUT /api/orders/:id/cancel\<close>

definition put_orders_cancel ::
  "env \<Rightarrow> order list \<Rightarrow> objectId \<Rightarrow> objectId \<Rightarrow> string option \<Rightarrow>
   order_summary response \<times> order list" where
  "put_orders_cancel e orders uid oid body_reason =
     (let reason = map_option trim body_reason in
      case List.find (\<lambda>x. o_id x = oid \<and> o_user x = uid) orders of
        None \<Rightarrow> (failure 404 ''Order not found'', orders)
      | Some ord \<Rightarrow>
          if \<not> order_canBeCancelled ord
          then (failure 400 ''Order cannot be cancelled at this stage'', orders)
          else
            let cancelled = ord\<lparr>o_orderStatus := OCancelled, o_cancellationReason := reason\<rparr>
            in case order_save e False cancelled orders of
                 Inl err \<Rightarrow> (failure 500 ''Server error'', orders)
               | Inr (saved, orders1) \<Rightarrow>
                   (ok 200 ''Order cancelled successfully'' (order_getSummary saved), orders1))"

section \<open>The JavaScript runtime: dates and their formatting\<close>

text \<open>
  A Date object holds a time value or NaN (an invalid date). What \<open>new Date(string)\<close> makes
  of a string is for the runtime to say, and so is what validator.js accepts as an ISO 8601
  date and how a weekday is printed; the handlers take these as a \<open>runtime\<close>. Comparing two
  dates compares their time values as numbers, and every comparison with NaN is false.
\<close>

datatype jsdate = InvalidDate | TimeValue date

record runtime =
  parseDate :: "string \<Rightarrow> jsdate"
  isISO8601 :: "string \<Rightarrow> bool"
  formatDate :: "string \<Rightarrow> string option \<Rightarrow> date \<Rightarrow> string"

fun date_le :: "jsdate \<Rightarrow> jsdate \<Rightarrow> bool" where
  "date_le (TimeValue a) (TimeValue b) = (a \<le> b)"
| "date_le _ _ = False"

definition date_ge :: "jsdate \<Rightarrow> jsdate \<Rightarrow> bool" where
  "date_ge a b = date_le b a"

text \<open>
  \<open>Date.prototype.toLocaleDateString(locales, options)\<close> as ECMA-402 has it: an invalid date
  prints as \<open>Invalid Date\<close> before the options are read; otherwise the \<open>weekday\<close> option goes
  through \<open>GetOption\<close>, which throws a RangeError for a value outside the allowed ones.
\<close>

record dtf_options =
  weekday :: "string option"

definition GetOption :: "string option \<Rightarrow> string list \<Rightarrow> js_error + string option" where
  "GetOption v allowed =
     (case v of
        None \<Rightarrow> Inr None
      | Some s \<Rightarrow>
          if allowed \<noteq> [] \<and> s \<notin> set allowed then Inl RangeError else Inr (Some s))"

definition toLocaleDateString ::
  "runtime \<Rightarrow> jsdate \<Rightarrow> string \<Rightarrow> dtf_options \<Rightarrow> js_error + string" where
  "toLocaleDateString rt d locales options =
     (case d of
        InvalidDate \<Rightarrow> Inr ''Invalid Date''
      | TimeValue t \<Rightarrow>
          (case GetOption (weekday options) [''narrow'', ''short'', ''long''] of
             Inl err \<Rightarrow> Inl err
           | Inr w \<Rightarrow> Inr (formatDate rt locales w t)))"

section \<open>Health professionals\<close>

datatype day_of_week = Monday | Tuesday | Wednesday | Thursday | Friday | Saturday | Sunday

fun day_name :: "day_of_week \<Rightarrow> string" where
  "day_name Monday = ''monday''"
| "day_name Tuesday = ''tuesday''"
| "day_name Wednesday = ''wednesday''"
| "day_name Thursday = ''thursday''"
| "day_name Friday = ''friday''"
| "day_name Saturday = ''saturday''"
| "day_name Sunday = ''sunday''"

record availability =
  av_day :: day_of_week
  av_startTime :: string
  av_endTime :: string
  av_isAvailable :: bool

record healthProfessional =
  hp_id :: objectId
  hp_isActive :: bool
  hp_consultationFee :: number
  hp_availability :: "availability list"

definition isAvailable :: "runtime \<Rightarrow> healthProfessional \<Rightarrow> string \<Rightarrow> string \<Rightarrow> bool" where
  "isAvailable rt prof day time' =
     (case List.find (\<lambda>a. day_name (av_day a) = day \<and> av_isAvailable a) (hp_availability prof) of
        None \<Rightarrow> False
      | Some availability \<Rightarrow>
          let requestedTime = parseDate rt (''2000-01-01 '' @ time');
              startTime = parseDate rt (''2000-01-01 '' @ av_startTime availability);
              endTime = parseDate rt (''2000-01-01 '' @ av_endTime availability)
          in date_ge requestedTime startTime \<and> date_le requestedTime endTime)"

section \<open>Bookings\<close>

datatype booking_status = Pending | Confirmed | InProgress | Completed | Cancelled | NoShow

fun status_name :: "booking_status \<Rightarrow> string" where
  "status_name Pending = ''pending''"
| "status_name Confirmed = ''confirmed''"
| "status_name InProgress = ''in_progress''"
| "status_name Completed = ''completed''"
| "status_name Cancelled = ''cancelled''"
| "status_name NoShow = ''no_show''"

datatype cancelled_by = ByUser | ByProfessional | BySystem

record service =
  sv_name :: "string option"
  sv_price :: "number option"

record booking_rating =
  br_professional :: number
  br_service :: number
  br_overall :: number
  br_comment :: "string option"
  br_date :: date

record booking =
  b_id :: objectId
  b_user :: objectId
  b_healthProfessional :: objectId
  b_bookingNumber :: "string option"
  b_appointmentDate :: date
  b_appointmentTime :: string
  b_duration :: int
  b_service :: "service option"
  b_consultationType :: string
  b_location :: string
  b_symptoms :: "string list"
  b_medicalHistory :: "string option"
  b_currentMedications :: "string list"
  b_allergies :: "string list"
  b_specialInstructions :: "string option"
  b_isUrgent :: bool
  b_status :: booking_status
  b_paymentStatus :: payment_status
  b_paymentMethod :: string
  b_amount :: number
  b_currency :: string
  b_cancellationReason :: "string option"
  b_cancellationDate :: "date option"
  b_cancellationBy :: "cancelled_by option"
  b_followUpRequired :: bool
  b_rating :: "booking_rating option"
  b_notifications :: "notification list"
  b_createdBy :: objectId
  b_createdAt :: "date option"
  b_updatedAt :: "date option"

record booking_summary =
  bs_id :: objectId
  bs_bookingNumber :: "string option"
  bs_appointmentDate :: date
  bs_appointmentTime :: string
  bs_status :: booking_status
  bs_paymentStatus :: payment_status
  bs_amount :: number
  bs_currency :: string
  bs_consultationType :: string

definition booking_pre_save :: "env \<Rightarrow> bool \<Rightarrow> booking \<Rightarrow> booking" where
  "booking_pre_save e isNew b =
     (let numbered =
            (if isNew then b\<lparr>b_bookingNumber := Some (''BK'' @ date_stamp (now e) (random e))\<rparr>
             else b);
          created =
            (if isNew then numbered\<lparr>b_createdAt := Some (getTime (now e))\<rparr> else numbered)
      in created\<lparr>b_updatedAt := Some (getTime (now e))\<rparr>)"

text \<open>The \<open>type\<close> enumeration of the entries of \<open>bookingSchema.notifications\<close>.\<close>

definition booking_notification_types :: "string list" where
  "booking_notification_types =
     [''booking_confirmed'', ''reminder'', ''cancelled'', ''completed'', ''payment_received'']"

definition booking_validate :: "booking \<Rightarrow> bool" where
  "booking_validate b =
     (b_bookingNumber b \<noteq> None
      \<and> b_appointmentTime b \<noteq> []
      \<and> b_consultationType b \<in> set [''in_person'', ''online'', ''home_visit'']
      \<and> b_location b \<in> set [''clinic'', ''home'', ''online'']
      \<and> b_paymentMethod b \<in> set [''mpesa'', ''cash'', ''bank_transfer'', ''insurance'']
      \<and> (case b_rating b of
            None \<Rightarrow> True
          | Some r \<Rightarrow> valid_rating (br_professional r) \<and> valid_rating (br_service r)
                        \<and> valid_rating (br_overall r))
      \<and> list_all (\<lambda>n. n_type n \<in> set booking_notification_types) (b_notifications b))"

definition booking_save ::
  "env \<Rightarrow> bool \<Rightarrow> booking \<Rightarrow> booking list \<Rightarrow> js_error + booking \<times> booking list" where
  "booking_save e isNew b coll =
     (if \<not> booking_validate b then Inl ValidationError
      else let doc = booking_pre_save e isNew b in Inr (doc, store b_id isNew doc coll))"

definition updateStatus ::
  "env \<Rightarrow> booking_status \<Rightarrow> string option \<Rightarrow> booking \<Rightarrow> booking list \<Rightarrow>
   js_error + booking \<times> booking list" where
  "updateStatus e newStatus notificationMessage b coll =
     (let moved = b\<lparr>b_status := newStatus\<rparr>;
          notified =
            (case notificationMessage of
               None \<Rightarrow> moved
             | Some msg \<Rightarrow>
                 if msg = [] then moved
                 else moved\<lparr>b_notifications := b_notifications moved @
                        [\<lparr>n_type = status_name newStatus, n_message = msg,
                          n_sentAt = getTime (now e), n_isRead = False\<rparr>]\<rparr>)
      in booking_save e False notified coll)"

definition cancelBooking ::
  "env \<Rightarrow> string option \<Rightarrow> cancelled_by \<Rightarrow> booking \<Rightarrow> booking list \<Rightarrow>
   js_error + booking \<times> booking list" where
  "cancelBooking e reason cancelledBy b coll =
     booking_save e False
       (b\<lparr>b_status := Cancelled,
          b_cancellationReason := reason,
          b_cancellationDate := Some (getTime (now e)),
          b_cancellationBy := Some cancelledBy,
          b_notifications := b_notifications b @
            [\<lparr>n_type = ''cancelled'',
              n_message = ''Your appointment has been cancelled. Reason: ''
                 @ (case reason of None \<Rightarrow> ''undefined'' | Some r \<Rightarrow> r),
              n_sentAt = getTime (now e), n_isRead = False\<rparr>]\<rparr>)
       coll"

definition addRating ::
  "env \<Rightarrow> number \<Rightarrow> number \<Rightarrow> number \<Rightarrow> string option \<Rightarrow> booking \<Rightarrow> booking list \<Rightarrow>
   js_error + booking \<times> booking list" where
  "addRating e professionalRating serviceRating overallRating comment b coll =
     booking_save e False
       (b\<lparr>b_rating := Some \<lparr>br_professional = professionalRating, br_service = serviceRating,
            br_overall = overallRating, br_comment = comment, br_date = getTime (now e)\<rparr>\<rparr>)
       coll"

definition booking_getSummary :: "booking \<Rightarrow> booking_summary" where
  "booking_getSummary b =
     \<lparr>bs_id = b_id b, bs_bookingNumber = b_bookingNumber b,
      bs_appointmentDate = b_appointmentDate b, bs_appointmentTime = b_appointmentTime b,
      bs_status = b_status b, bs_paymentStatus = b_paymentStatus b, bs_amount = b_amount b,
      bs_currency = b_currency b, bs_consultationType = b_consultationType b\<rparr>"

text \<open>
  The difference of two time values is an exact integer. Its quotient by the milliseconds of
  an hour is compared with 24 unrounded: 24 is a binary64 value, rounding is monotone, and
  the least quotient above 24, \<open>24 + 1/3600000\<close>, lies beyond the binary64 value after 24.
\<close>

definition booking_canBeCancelled :: "clock \<Rightarrow> booking \<Rightarrow> bool" where
  "booking_canBeCancelled now' b =
     (let cancellableStatuses = [Pending, Confirmed];
          appointmentDateTime = b_appointmentDate b;
          hoursDifference = (of_int (appointmentDateTime - getTime now') :: rat) / (1000 * 60 * 60)
      in b_status b \<in> set cancellableStatuses \<and> hoursDifference > 24)"

subsection \<open>POST /api/bookings\<close>

record booking_request =
  bq_healthProfessionalId :: objectId
  bq_appointmentDate :: string
  bq_appointmentTime :: string
  bq_duration :: "int option"
  bq_consultationType :: string
  bq_service :: "service option"
  bq_symptoms :: "string list"
  bq_medicalHistory :: "string option"
  bq_currentMedications :: "string list"
  bq_allergies :: "string list"
  bq_specialInstructions :: "string option"
  bq_isUrgent :: "bool option"

definition is_digit :: "char \<Rightarrow> bool" where
  "is_digit c = (c \<in> set ''0123456789'')"

text \<open>The pattern \<open>/^([01]?[0-9]|2[0-3]):[0-5][0-9]$/\<close> of the \<open>appointmentTime\<close> validator.\<close>

fun matches_time :: "string \<Rightarrow> bool" where
  "matches_time [h1, h2, c, m1, m2] =
     (((h1 \<in> set ''01'' \<and> is_digit h2) \<or> (h1 = CHR ''2'' \<and> h2 \<in> set ''0123''))
      \<and> c = CHR '':'' \<and> m1 \<in> set ''012345'' \<and> is_digit m2)"
| "matches_time [h, c, m1, m2] =
     (is_digit h \<and> c = CHR '':'' \<and> m1 \<in> set ''012345'' \<and> is_digit m2)"
| "matches_time _ = False"

definition booking_validators :: "runtime \<Rightarrow> booking_request \<Rightarrow> string list" where
  "booking_validators rt q =
     check (isISO8601 rt (bq_appointmentDate q)) ''Invalid appointment date''
     @ check (matches_time (bq_appointmentTime q)) ''Invalid appointment time''
     @ check (case bq_duration q of None \<Rightarrow> True | Some d \<Rightarrow> 15 \<le> d \<and> d \<le> 180)
         ''Duration must be between 15 and 180 minutes''
     @ check (bq_consultationType q \<in> set [''in_person'', ''online'', ''home_visit''])
         ''Invalid consultation type''
     @ check (case bq_service q of None \<Rightarrow> True
              | Some s \<Rightarrow> (case sv_price s of None \<Rightarrow> True | Some p \<Rightarrow> 0 \<le> p))
         ''Invalid value''"

text \<open>The \<open>trim()\<close> sanitizers of the chain rewrite the request body.\<close>

definition booking_sanitizers :: "booking_request \<Rightarrow> booking_request" where
  "booking_sanitizers q =
     q\<lparr>bq_service := map_option (\<lambda>s. s\<lparr>sv_name := map_option trim (sv_name s)\<rparr>) (bq_service q),
       bq_medicalHistory := map_option trim (bq_medicalHistory q),
       bq_specialInstructions := map_option trim (bq_specialInstructions q)\<rparr>"

text \<open>
  \<open>Booking.findOne\<close> with the professional, the appointment date (the request's string cast
  to a Date), the appointment time string and a status of pending or confirmed.
\<close>

definition find_conflicting ::
  "booking list \<Rightarrow> objectId \<Rightarrow> date \<Rightarrow> string \<Rightarrow> booking option" where
  "find_conflicting coll healthProfessionalId appointmentDate appointmentTime =
     List.find (\<lambda>b. b_healthProfessional b = healthProfessionalId
                   \<and> b_appointmentDate b = appointmentDate
                   \<and> b_appointmentTime b = appointmentTime
                   \<and> b_status b \<in> set [Pending, Confirmed]) coll"

text \<open>\<open>service?.price || healthProfessional.consultationFee\<close>: a price of 0 is falsy.\<close>

definition booking_amount :: "service option \<Rightarrow> healthProfessional \<Rightarrow> number" where
  "booking_amount svc prof =
     (case svc of
        None \<Rightarrow> hp_consultationFee prof
      | Some s \<Rightarrow>
          (case sv_price s of
             None \<Rightarrow> hp_consultationFee prof
           | Some p \<Rightarrow> if p \<noteq> 0 then p else hp_consultationFee prof))"

definition new_Booking ::
  "objectId \<Rightarrow> objectId \<Rightarrow> date \<Rightarrow> number \<Rightarrow> booking_request \<Rightarrow> booking" where
  "new_Booking bid uid appointmentDate amount q =
     \<lparr>b_id = bid, b_user = uid, b_healthProfessional = bq_healthProfessionalId q,
      b_bookingNumber = None, b_appointmentDate = appointmentDate,
      b_appointmentTime = bq_appointmentTime q,
      b_duration = (case bq_duration q of None \<Rightarrow> 30 | Some d \<Rightarrow> d),
      b_service = bq_service q, b_consultationType = bq_consultationType q,
      b_location = ''clinic'', b_symptoms = bq_symptoms q,
      b_medicalHistory = bq_medicalHistory q, b_currentMedications = bq_currentMedications q,
      b_allergies = bq_allergies q, b_specialInstructions = bq_specialInstructions q,
      b_isUrgent = (case bq_isUrgent q of None \<Rightarrow> False | Some u \<Rightarrow> u),
      b_status = Pending, b_paymentStatus = PayPending, b_paymentMethod = ''mpesa'',
      b_amount = amount, b_currency = ''KES'',
      b_cancellationReason = None, b_cancellationDate = None, b_cancellationBy = Some ByUser,
      b_followUpRequired = False, b_rating = None, b_notifications = [], b_createdBy = uid,
      b_createdAt = None, b_updatedAt = None\<rparr>"

definition post_bookings ::
  "runtime \<Rightarrow> env \<Rightarrow> healthProfessional list \<Rightarrow> booking list \<Rightarrow> objectId \<Rightarrow> booking_request \<Rightarrow>
   booking_summary response \<times> booking list" where
  "post_bookings rt e professionals bookings uid q =
     (let errors = booking_validators rt q in
      if errors \<noteq> [] then (validation_errors errors, bookings)
      else
        case List.find (\<lambda>p. hp_id p = bq_healthProfessionalId q) professionals of
          None \<Rightarrow> (failure 404 ''Health professional not found or not available'', bookings)
        | Some healthProfessional \<Rightarrow>
            if \<not> hp_isActive healthProfessional
            then (failure 404 ''Health professional not found or not available'', bookings)
            else
              let appointmentDateTime =
                    parseDate rt (bq_appointmentDate q @ ''T'' @ bq_appointmentTime q)
              in if date_le appointmentDateTime (TimeValue (getTime (now e)))
                 then (failure 400 ''Appointment date and time must be in the future'', bookings)
                 else
                   case toLocaleDateString rt appointmentDateTime ''en-US''
                          \<lparr>weekday = Some ''lowercase''\<rparr> of
                     Inl err \<Rightarrow> (failure 500 ''Server error'', bookings)
                   | Inr dayOfWeek \<Rightarrow>
                       if \<not> isAvailable rt healthProfessional dayOfWeek (bq_appointmentTime q)
                       then (failure 400 ''Health professional is not available at this time'',
                             bookings)
                       else
                         case parseDate rt (bq_appointmentDate q) of
                           InvalidDate \<Rightarrow> (failure 500 ''Server error'', bookings)
                         | TimeValue appointmentDate \<Rightarrow>
                             (case find_conflicting bookings (bq_healthProfessionalId q)
                                     appointmentDate (bq_appointmentTime q) of
                                Some conflictingBooking \<Rightarrow>
                                  (failure 400 ''This time slot is already booked'', bookings)
                              | None \<Rightarrow>
                                  let body = booking_sanitizers q;
                                      amount = booking_amount (bq_service body) healthProfessional;
                                      b = new_Booking (newObjectId e) uid appointmentDate amount body
                                  in case booking_save e True b bookings of
                                       Inl err \<Rightarrow> (failure 500 ''Server error'', bookings)
                                     | Inr (saved, bookings1) \<Rightarrow>
                                         (ok 201 ''Booking created successfully''
                                            (booking_getSummary saved), bookings1)))"

subsection \<open>PUT /api/bookings/:id/cancel\<close>

definition put_bookings_cancel ::
  "env \<Rightarrow> booking list \<Rightarrow> objectId \<Rightarrow> objectId \<Rightarrow> string option \<Rightarrow>
   booking_summary response \<times> booking list" where
  "put_bookings_cancel e bookings uid bid body_reason =
     (let reason = map_option trim body_reason in
      case List.find (\<lambda>x. b_id x = bid \<and> b_user x = uid) bookings of
        None \<Rightarrow> (failure 404 ''Booking not found'', bookings)
      | Some b \<Rightarrow>
          if \<not> booking_canBeCancelled (now e) b
          then (failure 400 ''Booking cannot be cancelled at this stage'', bookings)
          else
            case cancelBooking e reason ByUser b bookings of
              Inl err \<Rightarrow> (failure 500 ''Server error'', bookings)
            | Inr (saved, bookings1) \<Rightarrow>
                (ok 200 ''Booking cancelled successfully'' (booking_getSummary saved),
                 bookings1))"

section \<open>Sample data\<close>

definition sample_env :: env where
  "sample_env =
     \<lparr>now = \<lparr>getTime = 1705312800000, getFullYear = 2024, getMonth = 0, getDate = 15\<rparr>,
      random = 42 / 1000, newObjectId = 100\<rparr>"

definition meal_a :: meal where
  "meal_a = \<lparr>m_id = 1, m_price = 150, m_isActive = True\<rparr>"

definition meal_b :: meal where
  "meal_b = \<lparr>m_id = 2, m_price = 450, m_isActive = True\<rparr>"

definition sample_order_request :: order_request where
  "sample_order_request =
     \<lparr>q_items = [\<lparr>ir_mealId = ''000000000000000000000001'', ir_quantity = 2,
                  ir_specialInstructions = None\<rparr>,
                 \<lparr>ir_mealId = ''000000000000000000000002'', ir_quantity = 1,
                  ir_specialInstructions = None\<rparr>],
      q_deliveryAddress = \<lparr>street = ''Moi Avenue'', city = ''Kisumu'', county = ''Kisumu'',
        postalCode = None, coordinates = None, instructions = None\<rparr>,
      q_contactInfo = \<lparr>c_name = ''Achieng'', c_phone = ''0700000000'', c_email = None\<rparr>,
      q_paymentMethod = ''mpesa'', q_specialInstructions = None, q_allergies = [],
      q_dietaryRestrictions = []\<rparr>"

definition duplicate_order_request :: order_request where
  "duplicate_order_request =
     sample_order_request
       \<lparr>q_items := [\<lparr>ir_mealId = ''000000000000000000000001'', ir_quantity = 1,
                     ir_specialInstructions = None\<rparr>,
                    \<lparr>ir_mealId = ''000000000000000000000001'', ir_quantity = 1,
                     ir_specialInstructions = None\<rparr>]\<rparr>"

definition meal_c :: meal where
  "meal_c = \<lparr>m_id = 10, m_price = 300, m_isActive = True\<rparr>"

definition upper_case_order_request :: order_request where
  "upper_case_order_request =
     sample_order_request
       \<lparr>q_items := [\<lparr>ir_mealId = ''00000000000000000000000A'', ir_quantity = 1,
                     ir_specialInstructions = None\<rparr>]\<rparr>"

definition sample_order_items :: "order_item list" where
  "sample_order_items =
     [\<lparr>oi_meal = 1, oi_quantity = 2, oi_price = 150, oi_totalPrice = 300,
       oi_specialInstructions = None\<rparr>,
      \<lparr>oi_meal = 2, oi_quantity = 1, oi_price = 450, oi_totalPrice = 450,
       oi_specialInstructions = None\<rparr>]"

definition sample_order :: order where
  "sample_order =
     (new_Order 100 7 sample_order_items 750 200 120 1070 sample_order_request)
       \<lparr>o_orderNumber := Some ''MH240115042'', o_estimatedDelivery := Some 1705315500000,
        o_createdAt := Some 1705312800000, o_updatedAt := Some 1705312800000\<rparr>"

definition later_env :: env where
  "later_env =
     \<lparr>now = \<lparr>getTime = 1705313400000, getFullYear = 2024, getMonth = 0, getDate = 15\<rparr>,
      random = 7 / 10, newObjectId = 101\<rparr>"

subsection \<open>A sample runtime, professionals and bookings\<close>

text \<open>
  A runtime for the examples. Its Date parser reads the strings the examples use the way V8
  does with the clock on UTC: a calendar date alone, a calendar date followed by
  \<open>T10:00:00Z\<close>, a calendar date followed by \<open>T\<close> and \<open>HH:MM\<close>, and a calendar date followed
  by a blank and \<open>HH:MM\<close> or \<open>H:MM\<close>; any other string of the examples, such as a one-digit
  hour after \<open>T\<close> or a date and time with a second \<open>T\<close> and time appended, is an invalid
  date. Its ISO 8601 check accepts the first two forms.
\<close>

definition digit_value :: "char \<Rightarrow> nat option" where
  "digit_value c =
     (if is_digit c then Some (length (takeWhile (\<lambda>d. d \<noteq> c) ''0123456789'')) else None)"

fun clock_minutes :: "string \<Rightarrow> nat option" where
  "clock_minutes [h1, h2, c, m1, m2] =
     (case (digit_value h1, digit_value h2, digit_value m1, digit_value m2) of
        (Some a, Some b, Some x, Some y) \<Rightarrow>
          if c = CHR '':'' \<and> 10 * a + b < 24 \<and> x < 6 then Some ((10 * a + b) * 60 + 10 * x + y)
          else None
      | _ \<Rightarrow> None)"
| "clock_minutes _ = None"

definition sample_calendar :: "(string \<times> date) list" where
  "sample_calendar =
     [(''2000-01-01'', 946684800000), (''2020-01-13'', 1578873600000),
      (''2024-01-16'', 1705363200000), (''2030-01-14'', 1894579200000)]"

definition sample_parseDate :: "string \<Rightarrow> jsdate" where
  "sample_parseDate s =
     (case map_of sample_calendar (take 10 s) of
        None \<Rightarrow> InvalidDate
      | Some midnight \<Rightarrow>
          if drop 10 s = [] then TimeValue midnight
          else if drop 10 s = ''T10:00:00Z'' then TimeValue (midnight + 36000000)
          else if take 1 (drop 10 s) = ''T''
          then (case clock_minutes (drop 11 s) of
                  None \<Rightarrow> InvalidDate
                | Some m \<Rightarrow> TimeValue (midnight + int m * 60000))
          else if take 1 (drop 10 s) = '' ''
          then (case clock_minutes (if length s = 15 then CHR ''0'' # drop 11 s else drop 11 s) of
                  None \<Rightarrow> InvalidDate
                | Some m \<Rightarrow> TimeValue (midnight + int m * 60000))
          else InvalidDate)"

definition sample_formatDate :: "string \<Rightarrow> string option \<Rightarrow> date \<Rightarrow> string" where
  "sample_formatDate locales width t =
     (let name = [''Thursday'', ''Friday'', ''Saturday'', ''Sunday'', ''Monday'', ''Tuesday'',
                  ''Wednesday''] ! nat ((t div 86400000) mod 7)
      in case width of
           None \<Rightarrow> name
         | Some w \<Rightarrow> if w = ''long'' then name else if w = ''short'' then take 3 name
                     else take 1 name)"

definition sample_runtime :: runtime where
  "sample_runtime =
     \<lparr>parseDate = sample_parseDate,
      isISO8601 = (\<lambda>s. map_of sample_calendar (take 10 s) \<noteq> None
                       \<and> drop 10 s \<in> set [[], ''T10:00:00Z'']),
      formatDate = sample_formatDate\<rparr>"

definition weekdays_8_to_17 :: healthProfessional where
  "weekdays_8_to_17 =
     \<lparr>hp_id = 20, hp_isActive = True, hp_consultationFee = 1500,
      hp_availability =
        [\<lparr>av_day = Monday, av_startTime = ''08:00'', av_endTime = ''17:00'',
          av_isAvailable = True\<rparr>,
         \<lparr>av_day = Tuesday, av_startTime = ''08:00'', av_endTime = ''17:00'',
          av_isAvailable = True\<rparr>]\<rparr>"

definition split_shift :: healthProfessional where
  "split_shift =
     \<lparr>hp_id = 21, hp_isActive = True, hp_consultationFee = 1500,
      hp_availability =
        [\<lparr>av_day = Monday, av_startTime = ''08:00'', av_endTime = ''12:00'',
          av_isAvailable = True\<rparr>,
         \<lparr>av_day = Monday, av_startTime = ''14:00'', av_endTime = ''17:00'',
          av_isAvailable = True\<rparr>]\<rparr>"

definition sample_booking_request :: booking_request where
  "sample_booking_request =
     \<lparr>bq_healthProfessionalId = 20, bq_appointmentDate = ''2030-01-14'',
      bq_appointmentTime = ''10:00'', bq_duration = None, bq_consultationType = ''in_person'',
      bq_service = None, bq_symptoms = [], bq_medicalHistory = None,
      bq_currentMedications = [], bq_allergies = [], bq_specialInstructions = None,
      bq_isUrgent = None\<rparr>"

definition vaccination_request :: booking_request where
  "vaccination_request =
     sample_booking_request
       \<lparr>bq_service := Some \<lparr>sv_name = Some ''Vaccination'', sv_price = Some 800\<rparr>\<rparr>"

definition instant_request :: booking_request where
  "instant_request = sample_booking_request\<lparr>bq_appointmentDate := ''2030-01-14T10:00:00Z''\<rparr>"

definition past_request :: booking_request where
  "past_request = sample_booking_request\<lparr>bq_appointmentDate := ''2020-01-13''\<rparr>"

definition past_one_digit_hour_request :: booking_request where
  "past_one_digit_hour_request = past_request\<lparr>bq_appointmentTime := ''9:30''\<rparr>"

definition sample_booking :: booking where
  "sample_booking =
     (new_Booking 50 7 1894579200000 1500 sample_booking_request)
       \<lparr>b_bookingNumber := Some ''BK240110007'', b_createdAt := Some 1704880800000,
        b_updatedAt := Some 1704880800000\<rparr>"

definition tomorrow_booking :: booking where
  "tomorrow_booking = sample_booking\<lparr>b_id := 51, b_appointmentDate := 1705363200000\<rparr>"


section \<open>Properties of the order handlers\<close>

lemma find_SomeD: "List.find P xs = Some x \<Longrightarrow> x \<in> set xs \<and> P x"
  by (induction xs) (auto split: if_splits)

lemma store_update_at:
  assumes "distinct (map key (pre @ x # post))" and "key d = key x"
  shows "store key False d (pre @ x # post) = pre @ d # post"
proof -
  from assms(1) have "key x \<notin> key ` set pre" "key x \<notin> key ` set post" by auto
  then have "\<forall>y \<in> set pre. key y \<noteq> key x" "\<forall>y \<in> set post. key y \<noteq> key x"
    by (metis imageI)+
  then have "map (\<lambda>y. if key y = key x then d else y) pre = pre"
    and "map (\<lambda>y. if key y = key x then d else y) post = post"
    by (simp_all add: map_idI)
  then show ?thesis by (simp add: store_def assms(2))
qed

lemma find_store_update:
  "key d = k \<Longrightarrow> \<exists>x \<in> set xs. key x = k \<Longrightarrow>
   List.find (\<lambda>x. key x = k) (store key False d xs) = Some d"
  by (induction xs) (auto simp: store_def)

text \<open>
  With unique meal identifiers in the store, the query resolves fewer meals than the request
  has entries as soon as one entry names a meal that is missing or inactive.
\<close>

lemma find_active_meals_missing:
  assumes "distinct (map m_id mealColl)" and "s \<in> set mealIds"
    and "\<not> (\<exists>m \<in> set mealColl. m_id m = castObjectId s \<and> m_isActive m)"
  shows "length (find_active_meals mealColl mealIds) < length mealIds"
proof -
  let ?found = "find_active_meals mealColl mealIds"
  have "distinct (map m_id ?found)"
    using assms(1) by (simp add: find_active_meals_def distinct_map_filter)
  then have "length ?found = card (set (map m_id ?found))"
    using distinct_card[of "map m_id ?found"] by simp
  also have "set (map m_id ?found) \<subseteq> set (map castObjectId mealIds) - {castObjectId s}"
    using assms(3) by (auto simp: find_active_meals_def)
  then have "card (set (map m_id ?found)) \<le> card (set (map castObjectId mealIds) - {castObjectId s})"
    by (intro card_mono) simp_all
  also have "\<dots> < card (set (map castObjectId mealIds))"
    using assms(2) by (intro card_Diff1_less) simp_all
  also have "\<dots> \<le> length mealIds"
    using card_length[of "map castObjectId mealIds"] by simp
  finally show ?thesis .
qed

lemma post_orders_rejected:
  assumes "order_validators q = []"
    and "length (find_active_meals mealColl (map ir_mealId (q_items q))) \<noteq> length (q_items q)"
  shows "post_orders e mealColl orders uid q = (failure 400 ''Some meals are not available'', orders)"
  using assms by (simp add: post_orders_def Let_def)

text \<open>
  A request that names a missing or inactive meal is rejected as a whole, and a request
  without items is answered with the error of the \<open>items\<close> validator; nothing is stored.
\<close>

lemma post_orders_missing_meal:
  assumes "distinct (map m_id mealColl)" and "order_validators q = []"
    and "r \<in> set (q_items q)"
    and "\<not> (\<exists>m \<in> set mealColl. m_id m = castObjectId (ir_mealId r) \<and> m_isActive m)"
  shows "post_orders e mealColl orders uid q = (failure 400 ''Some meals are not available'', orders)"
proof -
  from assms(3) have "ir_mealId r \<in> set (map ir_mealId (q_items q))" by simp
  from find_active_meals_missing[OF assms(1) this assms(4)]
  have "length (find_active_meals mealColl (map ir_mealId (q_items q))) \<noteq> length (q_items q)"
    by simp
  with assms(2) show ?thesis by (rule post_orders_rejected)
qed

lemma post_orders_empty:
  assumes "q_items q = []"
  shows "r_status (fst (post_orders e mealColl orders uid q)) = 400"
    "r_message (fst (post_orders e mealColl orders uid q)) = ''Validation errors''"
    "''At least one item is required'' \<in> set (r_errors (fst (post_orders e mealColl orders uid q)))"
    "snd (post_orders e mealColl orders uid q) = orders"
  using assms by (simp_all add: post_orders_def Let_def order_validators_def check_def validation_errors_def)

text \<open>
  The document that the handler constructs has no order number when \<open>save\<close> validates it, so
  the save rejects it: no request makes \<open>POST /api/orders\<close> store an order or answer 201.
\<close>

lemma build_order_rejected: "order_save e True (build_order oid uid q orderItems) coll = Inl ValidationError"
  by (simp add: order_save_def order_validate_def build_order_def new_Order_def Let_def)

lemma post_orders_stores_nothing:
  "snd (post_orders e mealColl orders uid q) = orders
   \<and> r_status (fst (post_orders e mealColl orders uid q)) \<noteq> 201"
  by (simp add: post_orders_def Let_def build_order_rejected failure_def validation_errors_def
        split: sum.splits)

text \<open>
  C1 on the code: for the request with the lines 150 x 2 and 450 x 1 the validators pass, both
  meals are resolved, the lines are priced 300 and 450 and the order is constructed with
  subtotal 750, delivery fee 200, tax 120 and total 1070; the save then rejects it and the
  request is answered 500 with nothing stored.
\<close>

theorem post_orders_save_rejected:
  "order_validators sample_order_request = []
   \<and> length (find_active_meals [meal_a, meal_b] (map ir_mealId (q_items sample_order_request)))
       = length (q_items sample_order_request)
   \<and> map_items [meal_a, meal_b] (q_items sample_order_request) = Inr sample_order_items
   \<and> o_subtotal (build_order 100 7 sample_order_request sample_order_items) = 750
   \<and> o_deliveryFee (build_order 100 7 sample_order_request sample_order_items) = 200
   \<and> o_tax (build_order 100 7 sample_order_request sample_order_items) = 120
   \<and> o_total (build_order 100 7 sample_order_request sample_order_items) = 1070
   \<and> o_orderNumber (build_order 100 7 sample_order_request sample_order_items) = None
   \<and> post_orders sample_env [meal_a, meal_b] [] 7 sample_order_request
       = (failure 500 ''Server error'', [])"
  by code_simp

text \<open>
  C6 on the code: a request with two entries for one active meal passes the validators,
  resolves one meal for its one distinct entry and is rejected with 400; a request whose
  entries are distinct and all resolved is answered 500 by the rejected save; and a request
  that writes a resolved meal's identifier in upper case is answered 500 because no resolved
  meal prints as that string.
\<close>

theorem post_orders_acceptance_diverges:
  "order_validators duplicate_order_request = []
   \<and> length (find_active_meals [meal_a] (map ir_mealId (q_items duplicate_order_request))) = 1
   \<and> card (set (q_items duplicate_order_request)) = 1
   \<and> post_orders sample_env [meal_a] [] 7 duplicate_order_request
       = (failure 400 ''Some meals are not available'', [])
   \<and> length (find_active_meals [meal_a, meal_b] (map ir_mealId (q_items sample_order_request)))
       = card (set (q_items sample_order_request))
   \<and> r_status (fst (post_orders sample_env [meal_a, meal_b] [] 7 sample_order_request)) = 500
   \<and> order_validators upper_case_order_request = []
   \<and> length (find_active_meals [meal_c] (map ir_mealId (q_items upper_case_order_request))) = 1
   \<and> map_items [meal_c] (q_items upper_case_order_request) = Inl TypeError
   \<and> post_orders sample_env [meal_c] [] 7 upper_case_order_request
       = (failure 500 ''Server error'', [])"
  by code_simp

lemma find_unique_split:
  assumes "distinct (map key xs)" and "List.find P xs = Some x"
  shows "\<exists>pre post. xs = pre @ x # post"
  using find_SomeD[OF assms(2)] by (auto simp: in_set_conv_decomp)

text \<open>
  C10, as the code has it. With unique order identifiers in the store, a successful
  \<open>PUT /api/orders/:id/cancel\<close> replaces the requester's order, which was pending or
  confirmed, by the same document with \<open>orderStatus\<close> cancelled, \<open>cancellationReason\<close> the
  trimmed reason of the request (unset without one) and \<open>updatedAt\<close> the time of the save;
  every other field, the notification log among them, and every other order is as before,
  and the notification types of an order have no \<open>cancelled\<close> kind.
\<close>

theorem put_orders_cancel_frame:
  assumes "distinct (map o_id orders)"
    and "put_orders_cancel e orders uid oid reason = (resp, orders')"
    and "r_status resp = 200"
  shows "\<exists>pre ord post.
           orders = pre @ ord # post \<and> o_id ord = oid \<and> o_user ord = uid
         \<and> o_orderStatus ord \<in> {OPending, OConfirmed}
         \<and> orders' = pre @ ord\<lparr>o_orderStatus := OCancelled,
                               o_cancellationReason := map_option trim reason,
                               o_updatedAt := Some (getTime (now e))\<rparr> # post
         \<and> ''cancelled'' \<notin> set order_notification_types"
proof -
  from assms(2,3) obtain ord where
    found: "List.find (\<lambda>x. o_id x = oid \<and> o_user x = uid) orders = Some ord"
    by (cases "List.find (\<lambda>x. o_id x = oid \<and> o_user x = uid) orders")
       (auto simp: put_orders_cancel_def failure_def)
  from find_SomeD[OF found] have ids: "o_id ord = oid" "o_user ord = uid" by simp_all
  from assms(2,3) found have can: "order_canBeCancelled ord"
    by (auto simp: put_orders_cancel_def failure_def Let_def split: if_splits)
  from find_unique_split[OF assms(1) found] obtain pre post where
    split: "orders = pre @ ord # post"
    by blast
  let ?d = "ord\<lparr>o_orderStatus := OCancelled, o_cancellationReason := map_option trim reason,
                 o_updatedAt := Some (getTime (now e))\<rparr>"
  have "orders' = store o_id False ?d orders"
    using assms(2,3) found can
    by (auto simp: put_orders_cancel_def Let_def order_save_def order_pre_save_def failure_def
             split: if_splits)
  also have "\<dots> = pre @ ?d # post"
    unfolding split by (rule store_update_at) (use assms(1) split in simp_all)
  finally have "orders' = pre @ ?d # post" .
  moreover from can have "o_orderStatus ord \<in> {OPending, OConfirmed}"
    by (simp add: order_canBeCancelled_def)
  moreover have "''cancelled'' \<notin> set order_notification_types"
    by (simp add: order_notification_types_def)
  ultimately show ?thesis using split ids by blast
qed

text \<open>
  C10 as stated fails on \<open>updatedAt\<close>, which the save of the cancelled order sets to the
  time of the cancellation.
\<close>

theorem put_orders_cancel_counterexample:
  "r_status (fst (put_orders_cancel later_env [sample_order] 7 100 (Some ''changed my mind''))) = 200
   \<and> map o_updatedAt (snd (put_orders_cancel later_env [sample_order] 7 100 (Some ''changed my mind'')))
       = [Some 1705313400000]
   \<and> o_updatedAt sample_order = Some 1705312800000"
  by code_simp

theorem put_orders_cancel_frame_witness:
  "distinct (map o_id [sample_order])
   \<and> put_orders_cancel later_env [sample_order] 7 100 (Some '' changed my mind '')
       = (ok 200 ''Order cancelled successfully''
            (order_getSummary (sample_order\<lparr>o_orderStatus := OCancelled,
               o_cancellationReason := Some ''changed my mind'',
               o_updatedAt := Some 1705313400000\<rparr>)),
          [sample_order\<lparr>o_orderStatus := OCancelled,
             o_cancellationReason := Some ''changed my mind'',
             o_updatedAt := Some 1705313400000\<rparr>])"
proof -
  let ?resp = "ok 200 ''Order cancelled successfully''
            (order_getSummary (sample_order\<lparr>o_orderStatus := OCancelled,
               o_cancellationReason := Some ''changed my mind'',
               o_updatedAt := Some 1705313400000\<rparr>))"
  let ?orders' = "[sample_order\<lparr>o_orderStatus := OCancelled,
             o_cancellationReason := Some ''changed my mind'',
             o_updatedAt := Some 1705313400000\<rparr>]"
  have ids: "distinct (map o_id [sample_order])" by simp
  have run: "put_orders_cancel later_env [sample_order] 7 100 (Some '' changed my mind '')
               = (?resp, ?orders')"
    by code_simp
  have answered: "r_status ?resp = 200" by (simp add: ok_def)
  from put_orders_cancel_frame[OF ids run answered] ids run show ?thesis by blast
qed


section \<open>Properties of the availability resolver and the booking handlers\<close>

lemmas runtime_defs = sample_runtime_def sample_parseDate_def sample_calendar_def
  sample_formatDate_def digit_value_def is_digit_def date_ge_def

lemmas booking_sample_defs = weekdays_8_to_17_def split_shift_def sample_booking_request_def
  sample_booking_def tomorrow_booking_def new_Booking_def

text \<open>
  C3, as the code has it. \<open>isAvailable\<close> answers for the first entry of the weekly list
  whose day is the requested one and whose \<open>isAvailable\<close> flag is set: the professional is
  available exactly when that entry exists and its start time is at most the requested time
  and the requested time at most its end time, both bounds included, the three times being
  read as dates on 2000-01-01. When the list has at most one such entry for the day, this is
  the same as some entry of the list matching the day, being flagged available and holding
  the requested time within its bounds. For Monday 08:00 to 17:00, Monday requests at 08:00
  and 17:00 are available and one at 07:59 is not.
\<close>

theorem isAvailable_first_entry:
  "(isAvailable rt prof day t \<longleftrightarrow>
      (\<exists>i < length (hp_availability prof).
          day_name (av_day (hp_availability prof ! i)) = day
        \<and> av_isAvailable (hp_availability prof ! i)
        \<and> (\<forall>j < i. \<not> (day_name (av_day (hp_availability prof ! j)) = day
                        \<and> av_isAvailable (hp_availability prof ! j)))
        \<and> date_le (parseDate rt (''2000-01-01 '' @ av_startTime (hp_availability prof ! i)))
                   (parseDate rt (''2000-01-01 '' @ t))
        \<and> date_le (parseDate rt (''2000-01-01 '' @ t))
                   (parseDate rt (''2000-01-01 '' @ av_endTime (hp_availability prof ! i)))))
   \<and> ((\<forall>a \<in> set (hp_availability prof). \<forall>b \<in> set (hp_availability prof).
          (day_name (av_day a) = day \<and> av_isAvailable a) \<and>
          (day_name (av_day b) = day \<and> av_isAvailable b) \<longrightarrow> a = b) \<longrightarrow>
       (isAvailable rt prof day t \<longleftrightarrow>
          (\<exists>a \<in> set (hp_availability prof).
              day_name (av_day a) = day \<and> av_isAvailable a
            \<and> date_le (parseDate rt (''2000-01-01 '' @ av_startTime a))
                       (parseDate rt (''2000-01-01 '' @ t))
            \<and> date_le (parseDate rt (''2000-01-01 '' @ t))
                       (parseDate rt (''2000-01-01 '' @ av_endTime a)))))"
proof (intro conjI impI)
  let ?avs = "hp_availability prof"
  let ?P = "\<lambda>a. day_name (av_day a) = day \<and> av_isAvailable a"
  let ?W = "\<lambda>a. date_le (parseDate rt (''2000-01-01 '' @ av_startTime a))
                       (parseDate rt (''2000-01-01 '' @ t))
            \<and> date_le (parseDate rt (''2000-01-01 '' @ t))
                       (parseDate rt (''2000-01-01 '' @ av_endTime a))"
  have eq: "isAvailable rt prof day t \<longleftrightarrow> (\<exists>a. List.find ?P ?avs = Some a \<and> ?W a)"
    by (cases "List.find ?P ?avs") (simp_all add: isAvailable_def Let_def date_ge_def)
  show "isAvailable rt prof day t \<longleftrightarrow>
      (\<exists>i < length ?avs. day_name (av_day (?avs ! i)) = day \<and> av_isAvailable (?avs ! i)
        \<and> (\<forall>j < i. \<not> (day_name (av_day (?avs ! j)) = day \<and> av_isAvailable (?avs ! j)))
        \<and> date_le (parseDate rt (''2000-01-01 '' @ av_startTime (?avs ! i)))
                   (parseDate rt (''2000-01-01 '' @ t))
        \<and> date_le (parseDate rt (''2000-01-01 '' @ t))
                   (parseDate rt (''2000-01-01 '' @ av_endTime (?avs ! i))))"
    unfolding eq find_Some_iff by auto
  assume uniq: "\<forall>a \<in> set ?avs. \<forall>b \<in> set ?avs. ?P a \<and> ?P b \<longrightarrow> a = b"
  have "isAvailable rt prof day t \<longleftrightarrow> (\<exists>a \<in> set ?avs. ?P a \<and> ?W a)"
  proof
    assume "isAvailable rt prof day t"
    then obtain a where "List.find ?P ?avs = Some a" "?W a" unfolding eq by blast
    then show "\<exists>a \<in> set ?avs. ?P a \<and> ?W a"
      by (auto simp: find_Some_iff)
  next
    assume "\<exists>a \<in> set ?avs. ?P a \<and> ?W a"
    then obtain a where a: "a \<in> set ?avs" "?P a" "?W a" by blast
    then have "List.find ?P ?avs \<noteq> None" by (auto simp: find_None_iff)
    then obtain b where b: "List.find ?P ?avs = Some b" by auto
    then have "b \<in> set ?avs" "?P b" by (auto simp: find_Some_iff)
    with uniq a have "a = b" by blast
    with a b show "isAvailable rt prof day t" unfolding eq by blast
  qed
  then show "isAvailable rt prof day t \<longleftrightarrow>
          (\<exists>a \<in> set ?avs.
              day_name (av_day a) = day \<and> av_isAvailable a
            \<and> date_le (parseDate rt (''2000-01-01 '' @ av_startTime a))
                       (parseDate rt (''2000-01-01 '' @ t))
            \<and> date_le (parseDate rt (''2000-01-01 '' @ t))
                       (parseDate rt (''2000-01-01 '' @ av_endTime a)))"
    by (simp only: conj_assoc)
qed

text \<open>
  C3 as stated fails for a professional with two Monday entries, 08:00 to 12:00 and 14:00 to
  17:00: at 15:00 the second entry matches the day, is flagged available and holds the time
  within its bounds, but only the first entry is consulted.
\<close>

theorem isAvailable_counterexample:
  "\<not> isAvailable sample_runtime split_shift ''monday'' ''15:00''
   \<and> hp_availability split_shift ! 1
       = \<lparr>av_day = Monday, av_startTime = ''14:00'', av_endTime = ''17:00'', av_isAvailable = True\<rparr>
   \<and> day_name Monday = ''monday''
   \<and> date_le (parseDate sample_runtime ''2000-01-01 14:00'') (parseDate sample_runtime ''2000-01-01 15:00'')
   \<and> date_le (parseDate sample_runtime ''2000-01-01 15:00'') (parseDate sample_runtime ''2000-01-01 17:00'')"
  by (simp add: isAvailable_def runtime_defs booking_sample_defs)

theorem isAvailable_witness:
  "isAvailable sample_runtime weekdays_8_to_17 ''monday'' ''08:00''
   \<and> isAvailable sample_runtime weekdays_8_to_17 ''monday'' ''17:00''
   \<and> \<not> isAvailable sample_runtime weekdays_8_to_17 ''monday'' ''07:59''
   \<and> \<not> isAvailable sample_runtime weekdays_8_to_17 ''sunday'' ''10:00''"
  using isAvailable_first_entry[of sample_runtime weekdays_8_to_17 "''monday''" "''08:00''"]
    isAvailable_first_entry[of sample_runtime weekdays_8_to_17 "''monday''" "''17:00''"]
    isAvailable_first_entry[of sample_runtime weekdays_8_to_17 "''monday''" "''07:59''"]
  by (simp add: isAvailable_def runtime_defs booking_sample_defs)

lemma booking_canBeCancelled_iff:
  "booking_canBeCancelled c b \<longleftrightarrow>
     b_status b \<in> {Pending, Confirmed} \<and> b_appointmentDate b - getTime c > 24 * 60 * 60 * 1000"
proof -
  have "(of_int (b_appointmentDate b - getTime c) :: rat) / (1000 * 60 * 60) > 24
        \<longleftrightarrow> (of_int (b_appointmentDate b - getTime c) :: rat) > of_int (24 * 60 * 60 * 1000)"
    by (simp add: field_simps)
  also have "\<dots> \<longleftrightarrow> b_appointmentDate b - getTime c > 24 * 60 * 60 * 1000"
    by (simp only: of_int_less_iff)
  finally show ?thesis
    by (simp add: booking_canBeCancelled_def Let_def)
qed

text \<open>
  C4. A cancellation by the owning user succeeds only if the booking is pending or confirmed
  and its appointment is more than 24 hours away; a request for a booking whose appointment
  is less than 24 hours away is answered 400, whatever the status, and the store is left as
  it was. \<open>canBeCancelled\<close> measures from the stored \<open>appointmentDate\<close>; the statement holds
  from there and from any later instant of that day (the date plus a time of day).
\<close>

theorem put_bookings_cancel_window:
  assumes "put_bookings_cancel e bookings uid bid reason = (resp, bookings')"
  shows "(r_status resp = 200 \<longrightarrow>
            (\<exists>b. List.find (\<lambda>x. b_id x = bid \<and> b_user x = uid) bookings = Some b
                \<and> b_status b \<in> {Pending, Confirmed}
                \<and> (\<forall>timeOfDay \<ge> 0.
                      b_appointmentDate b + timeOfDay - getTime (now e) > 24 * 60 * 60 * 1000)))
       \<and> (\<forall>b timeOfDay.
              List.find (\<lambda>x. b_id x = bid \<and> b_user x = uid) bookings = Some b
            \<and> 0 \<le> timeOfDay
            \<and> b_appointmentDate b + timeOfDay - getTime (now e) < 24 * 60 * 60 * 1000 \<longrightarrow>
              resp = failure 400 ''Booking cannot be cancelled at this stage''
            \<and> bookings' = bookings)"
proof (intro conjI impI allI)
  assume "r_status resp = 200"
  with assms have "\<exists>b. List.find (\<lambda>x. b_id x = bid \<and> b_user x = uid) bookings = Some b
                \<and> b_status b \<in> {Pending, Confirmed}
                \<and> b_appointmentDate b - getTime (now e) > 24 * 60 * 60 * 1000"
    by (cases "List.find (\<lambda>x. b_id x = bid \<and> b_user x = uid) bookings")
       (auto simp: put_bookings_cancel_def failure_def Let_def booking_canBeCancelled_iff
             split: if_splits sum.splits)
  then show "\<exists>b. List.find (\<lambda>x. b_id x = bid \<and> b_user x = uid) bookings = Some b
                \<and> b_status b \<in> {Pending, Confirmed}
                \<and> (\<forall>timeOfDay \<ge> 0.
                      b_appointmentDate b + timeOfDay - getTime (now e) > 24 * 60 * 60 * 1000)"
    by fastforce
next
  fix b timeOfDay
  assume b: "List.find (\<lambda>x. b_id x = bid \<and> b_user x = uid) bookings = Some b
            \<and> 0 \<le> timeOfDay
            \<and> b_appointmentDate b + timeOfDay - getTime (now e) < 24 * 60 * 60 * 1000"
  then have "\<not> booking_canBeCancelled (now e) b" by (simp add: booking_canBeCancelled_iff)
  with assms b show "resp = failure 400 ''Booking cannot be cancelled at this stage''"
    and "bookings' = bookings"
    by (simp_all add: put_bookings_cancel_def Let_def)
qed

lemmas booking_defs = put_bookings_cancel_def booking_canBeCancelled_def cancelBooking_def
  booking_save_def booking_validate_def booking_notification_types_def valid_rating_def
  booking_pre_save_def store_def booking_getSummary_def ok_def failure_def
  validation_errors_def trim_def is_space_def Let_def

lemmas env_defs = sample_env_def later_env_def

theorem put_bookings_cancel_window_witness:
  "r_status (fst (put_bookings_cancel sample_env [sample_booking, tomorrow_booking] 7 50
       (Some ''travelling''))) = 200
   \<and> b_status sample_booking = Pending
   \<and> b_appointmentDate sample_booking - getTime (now sample_env) > 24 * 60 * 60 * 1000
   \<and> b_appointmentDate tomorrow_booking - getTime (now sample_env) < 24 * 60 * 60 * 1000
   \<and> put_bookings_cancel sample_env [sample_booking, tomorrow_booking] 7 51 (Some ''travelling'')
       = (failure 400 ''Booking cannot be cancelled at this stage'',
          [sample_booking, tomorrow_booking])"
  using put_bookings_cancel_window[of sample_env "[sample_booking, tomorrow_booking]" 7 50
      "Some ''travelling''"
      "fst (put_bookings_cancel sample_env [sample_booking, tomorrow_booking] 7 50 (Some ''travelling''))"
      "snd (put_bookings_cancel sample_env [sample_booking, tomorrow_booking] 7 50 (Some ''travelling''))"]
    put_bookings_cancel_window[of sample_env "[sample_booking, tomorrow_booking]" 7 51
      "Some ''travelling''"
      "fst (put_bookings_cancel sample_env [sample_booking, tomorrow_booking] 7 51 (Some ''travelling''))"
      "snd (put_bookings_cancel sample_env [sample_booking, tomorrow_booking] 7 51 (Some ''travelling''))"]
  by (simp add: booking_defs booking_sample_defs env_defs)

lemma booking_pre_save_fields [simp]:
  "b_id (booking_pre_save e n b) = b_id b"
  "b_status (booking_pre_save e n b) = b_status b"
  "b_amount (booking_pre_save e n b) = b_amount b"
  "b_cancellationReason (booking_pre_save e n b) = b_cancellationReason b"
  "b_cancellationDate (booking_pre_save e n b) = b_cancellationDate b"
  "b_cancellationBy (booking_pre_save e n b) = b_cancellationBy b"
  by (simp_all add: booking_pre_save_def Let_def)

lemma booking_save_Inr:
  assumes "booking_save e n b coll = Inr (doc, coll')"
  shows "doc = booking_pre_save e n b \<and> coll' = store b_id n doc coll"
  using assms by (auto simp: booking_save_def Let_def split: if_splits)

text \<open>
  C7, as the code has it. A successful cancellation leaves the stored booking cancelled, with
  \<open>cancellationDate\<close> the time of the request, \<open>cancellationBy\<close> the user and
  \<open>cancellationReason\<close> the trimmed reason of the request, unset when the request has none.
  A newly constructed booking is pending with \<open>cancellationReason\<close> and \<open>cancellationDate\<close>
  unset and \<open>cancellationBy\<close> at its schema default, the user. \<open>updateStatus\<close> and
  \<open>addRating\<close> leave the three fields as they are in the document they save, and save
  nothing when the save rejects the document.
\<close>

theorem cancellation_fields:
  "(put_bookings_cancel e bookings uid bid reason = (resp, bookings') \<and> r_status resp = 200 \<longrightarrow>
      (\<exists>doc. List.find (\<lambda>x. b_id x = bid) bookings' = Some doc
            \<and> b_status doc = Cancelled
            \<and> b_cancellationReason doc = map_option trim reason
            \<and> b_cancellationDate doc = Some (getTime (now e))
            \<and> b_cancellationBy doc = Some ByUser))
   \<and> b_status (new_Booking oid uid d amount q) = Pending
   \<and> b_cancellationReason (new_Booking oid uid d amount q) = None
   \<and> b_cancellationDate (new_Booking oid uid d amount q) = None
   \<and> b_cancellationBy (new_Booking oid uid d amount q) = Some ByUser
   \<and> (\<forall>doc coll'. updateStatus e s msg b coll = Inr (doc, coll') \<longrightarrow>
          b_cancellationReason doc = b_cancellationReason b
        \<and> b_cancellationDate doc = b_cancellationDate b
        \<and> b_cancellationBy doc = b_cancellationBy b
        \<and> coll' = store b_id False doc coll)
   \<and> (\<forall>doc coll'. addRating e r1 r2 r3 c b coll = Inr (doc, coll') \<longrightarrow>
          b_cancellationReason doc = b_cancellationReason b
        \<and> b_cancellationDate doc = b_cancellationDate b
        \<and> b_cancellationBy doc = b_cancellationBy b
        \<and> coll' = store b_id False doc coll)"
proof -
  have cancel: "\<exists>doc. List.find (\<lambda>x. b_id x = bid) bookings' = Some doc
            \<and> b_status doc = Cancelled
            \<and> b_cancellationReason doc = map_option trim reason
            \<and> b_cancellationDate doc = Some (getTime (now e))
            \<and> b_cancellationBy doc = Some ByUser"
    if run: "put_bookings_cancel e bookings uid bid reason = (resp, bookings')"
      and st: "r_status resp = 200"
  proof -
    from run st obtain bk where
      found: "List.find (\<lambda>x. b_id x = bid \<and> b_user x = uid) bookings = Some bk"
      by (cases "List.find (\<lambda>x. b_id x = bid \<and> b_user x = uid) bookings")
         (auto simp: put_bookings_cancel_def failure_def)
    from find_SomeD[OF found] have id: "b_id bk = bid" and mem: "bk \<in> set bookings" by simp_all
    from run st found have can: "booking_canBeCancelled (now e) bk"
      by (auto simp: put_bookings_cancel_def failure_def Let_def split: if_splits)
    let ?c = "bk\<lparr>b_status := Cancelled, b_cancellationReason := map_option trim reason,
          b_cancellationDate := Some (getTime (now e)), b_cancellationBy := Some ByUser,
          b_notifications := b_notifications bk @
            [\<lparr>n_type = ''cancelled'',
              n_message = ''Your appointment has been cancelled. Reason: ''
                 @ (case map_option trim reason of None \<Rightarrow> ''undefined'' | Some r \<Rightarrow> r),
              n_sentAt = getTime (now e), n_isRead = False\<rparr>]\<rparr>"
    from run st found can obtain doc where
      saved: "booking_save e False ?c bookings = Inr (doc, bookings')"
      by (cases "booking_save e False ?c bookings")
         (auto simp: put_bookings_cancel_def Let_def cancelBooking_def failure_def)
    from booking_save_Inr[OF saved] have doc: "doc = booking_pre_save e False ?c"
      and b': "bookings' = store b_id False doc bookings" by blast+
    have "b_id doc = bid" by (simp add: doc id)
    moreover from mem id have "\<exists>x \<in> set bookings. b_id x = bid" by blast
    ultimately have "List.find (\<lambda>x. b_id x = bid) bookings' = Some doc"
      unfolding b' by (rule find_store_update)
    then show ?thesis by (simp add: doc)
  qed
  have status: "b_cancellationReason doc = b_cancellationReason b
        \<and> b_cancellationDate doc = b_cancellationDate b
        \<and> b_cancellationBy doc = b_cancellationBy b
        \<and> coll' = store b_id False doc coll"
    if "updateStatus e s msg b coll = Inr (doc, coll')" for doc coll'
    using that
    by (auto simp: updateStatus_def Let_def dest!: booking_save_Inr split: option.splits if_splits)
  have rating: "b_cancellationReason doc = b_cancellationReason b
        \<and> b_cancellationDate doc = b_cancellationDate b
        \<and> b_cancellationBy doc = b_cancellationBy b
        \<and> coll' = store b_id False doc coll"
    if "addRating e r1 r2 r3 c b coll = Inr (doc, coll')" for doc coll'
    using that by (auto simp: addRating_def dest!: booking_save_Inr)
  show ?thesis
    using cancel status rating by (simp add: new_Booking_def)
qed

text \<open>
  C7 as stated fails twice: a cancellation without a reason leaves a cancelled booking whose
  \<open>cancellationReason\<close> is unset, and a new, pending booking has \<open>cancellationBy\<close> set.
\<close>

theorem cancellation_fields_counterexample:
  "r_status (fst (put_bookings_cancel sample_env [sample_booking] 7 50 None)) = 200
   \<and> map b_status (snd (put_bookings_cancel sample_env [sample_booking] 7 50 None)) = [Cancelled]
   \<and> map b_cancellationReason (snd (put_bookings_cancel sample_env [sample_booking] 7 50 None))
       = [None]
   \<and> b_status (new_Booking 50 7 1894579200000 1500 sample_booking_request) = Pending
   \<and> b_cancellationBy (new_Booking 50 7 1894579200000 1500 sample_booking_request) = Some ByUser"
  by (simp add: booking_defs booking_sample_defs env_defs)

theorem cancellation_fields_witness:
  "r_status (fst (put_bookings_cancel sample_env [sample_booking] 7 50 (Some '' travelling ''))) = 200
   \<and> map b_status (snd (put_bookings_cancel sample_env [sample_booking] 7 50 (Some '' travelling '')))
        = [Cancelled]
   \<and> map b_cancellationReason
        (snd (put_bookings_cancel sample_env [sample_booking] 7 50 (Some '' travelling '')))
        = [Some ''travelling'']
   \<and> map b_cancellationDate
        (snd (put_bookings_cancel sample_env [sample_booking] 7 50 (Some '' travelling '')))
        = [Some 1705312800000]
   \<and> map b_cancellationBy
        (snd (put_bookings_cancel sample_env [sample_booking] 7 50 (Some '' travelling '')))
        = [Some ByUser]
   \<and> \<not> isl (updateStatus sample_env Completed (Some ''Visit completed'') sample_booking
              [sample_booking])
   \<and> b_cancellationBy (fst (projr (updateStatus sample_env Completed (Some ''Visit completed'')
          sample_booking [sample_booking]))) = Some ByUser
   \<and> b_cancellationDate (fst (projr (updateStatus sample_env Completed (Some ''Visit completed'')
          sample_booking [sample_booking]))) = None
   \<and> \<not> isl (addRating sample_env 5 4 5 None sample_booking [sample_booking])
   \<and> b_cancellationBy (fst (projr (addRating sample_env 5 4 5 None sample_booking
          [sample_booking]))) = Some ByUser
   \<and> b_cancellationReason (fst (projr (addRating sample_env 5 4 5 None sample_booking
          [sample_booking]))) = None"
  using cancellation_fields[where e = sample_env and bookings = "[sample_booking]" and uid = 7
      and bid = 50 and reason = "Some '' travelling ''"
      and resp = "fst (put_bookings_cancel sample_env [sample_booking] 7 50 (Some '' travelling ''))"
      and bookings' = "snd (put_bookings_cancel sample_env [sample_booking] 7 50 (Some '' travelling ''))"
      and s = Completed and msg = "Some ''Visit completed''" and b = sample_booking
      and coll = "[sample_booking]" and ?r1.0 = 5 and ?r2.0 = 4 and ?r3.0 = 5 and c = None]
  by (simp add: booking_defs booking_sample_defs env_defs updateStatus_def addRating_def)

text \<open>
  A notification that \<open>updateStatus\<close> pushes has the new status as its type; for a status
  outside the enumeration of notification types the save rejects the document.
\<close>

lemma updateStatus_notification_rejected:
  "updateStatus sample_env Confirmed (Some ''See you on Monday'') sample_booking [sample_booking]
     = Inl ValidationError"
  by (simp add: booking_defs booking_sample_defs env_defs updateStatus_def)

lemmas booking_request_defs = vaccination_request_def instant_request_def past_request_def
  past_one_digit_hour_request_def

lemma lowercase_weekday_RangeError:
  "toLocaleDateString rt (TimeValue t) locales \<lparr>weekday = Some ''lowercase''\<rparr> = Inl RangeError"
  by (simp add: toLocaleDateString_def GetOption_def)

lemma day_name_not_Invalid_Date: "day_name d \<noteq> ''Invalid Date''"
  by (cases d) simp_all

lemma isAvailable_Invalid_Date: "\<not> isAvailable rt prof ''Invalid Date'' t"
  by (simp add: isAvailable_def find_None_iff[THEN iffD2] day_name_not_Invalid_Date)

text \<open>
  C9, as the code has it. A request that passes the validators, the professional check and
  the future check asks for the weekday with the option value \<open>lowercase\<close>. When the combined
  date and time is a valid date, formatting throws a RangeError and the request ends with
  500. When it is an invalid date (which passes the future check, a comparison with NaN being
  false), formatting returns \<open>Invalid Date\<close> without reading the option, no availability
  entry has that day, and the request ends with 400. Either way the store is left as it was.
\<close>

theorem post_bookings_weekday_option:
  assumes "booking_validators rt q = []"
    and "List.find (\<lambda>p. hp_id p = bq_healthProfessionalId q) professionals = Some prof"
    and "hp_isActive prof"
    and "\<not> date_le (parseDate rt (bq_appointmentDate q @ ''T'' @ bq_appointmentTime q))
              (TimeValue (getTime (now e)))"
  shows "(\<forall>t. parseDate rt (bq_appointmentDate q @ ''T'' @ bq_appointmentTime q) = TimeValue t \<longrightarrow>
            toLocaleDateString rt (TimeValue t) ''en-US'' \<lparr>weekday = Some ''lowercase''\<rparr>
              = Inl RangeError
          \<and> post_bookings rt e professionals bookings uid q
              = (failure 500 ''Server error'', bookings))
       \<and> (parseDate rt (bq_appointmentDate q @ ''T'' @ bq_appointmentTime q) = InvalidDate \<longrightarrow>
            toLocaleDateString rt InvalidDate ''en-US'' \<lparr>weekday = Some ''lowercase''\<rparr>
              = Inr ''Invalid Date''
          \<and> post_bookings rt e professionals bookings uid q
              = (failure 400 ''Health professional is not available at this time'', bookings))"
proof (intro conjI impI allI)
  fix t
  assume t: "parseDate rt (bq_appointmentDate q @ ''T'' @ bq_appointmentTime q) = TimeValue t"
  show "toLocaleDateString rt (TimeValue t) ''en-US'' \<lparr>weekday = Some ''lowercase''\<rparr> = Inl RangeError"
    by (rule lowercase_weekday_RangeError)
  from assms t show "post_bookings rt e professionals bookings uid q
              = (failure 500 ''Server error'', bookings)"
    by (simp add: post_bookings_def Let_def lowercase_weekday_RangeError)
next
  assume n: "parseDate rt (bq_appointmentDate q @ ''T'' @ bq_appointmentTime q) = InvalidDate"
  show inv: "toLocaleDateString rt InvalidDate ''en-US'' \<lparr>weekday = Some ''lowercase''\<rparr>
              = Inr ''Invalid Date''"
    by (simp add: toLocaleDateString_def)
  from assms n show "post_bookings rt e professionals bookings uid q
              = (failure 400 ''Health professional is not available at this time'', bookings)"
    by (simp add: post_bookings_def Let_def inv isAvailable_Invalid_Date)
qed

text \<open>
  No request makes \<open>POST /api/bookings\<close> store a booking or answer 201: the conflict check
  and the construction of the booking are never reached.
\<close>

lemma post_bookings_stores_nothing:
  "snd (post_bookings rt e professionals bookings uid q) = bookings
   \<and> r_status (fst (post_bookings rt e professionals bookings uid q)) \<noteq> 201"
proof -
  have d: "isAvailable rt prof ''Invalid Date'' t = False" for prof t
    by (simp add: isAvailable_Invalid_Date)
  show ?thesis
    by (cases "parseDate rt (bq_appointmentDate q @ ''T'' @ bq_appointmentTime q)")
       (auto simp: post_bookings_def Let_def failure_def validation_errors_def
          toLocaleDateString_def GetOption_def d split: option.splits)
qed

lemmas post_booking_defs = post_bookings_def booking_validators_def check_def
  toLocaleDateString_def GetOption_def isAvailable_def find_conflicting_def failure_def
  validation_errors_def Let_def booking_request_defs

text \<open>
  C9 as stated fails for an appointment date that is a full ISO 8601 instant, which the
  validator accepts: with \<open>T\<close> and the time appended it is not a date, the request passes both
  checks and ends with 400, not 500.
\<close>

theorem post_bookings_weekday_option_counterexample:
  "booking_validators sample_runtime instant_request = []
   \<and> List.find (\<lambda>p. hp_id p = bq_healthProfessionalId instant_request) [weekdays_8_to_17]
       = Some weekdays_8_to_17
   \<and> hp_isActive weekdays_8_to_17
   \<and> \<not> date_le (parseDate sample_runtime ''2030-01-14T10:00:00ZT10:00'')
            (TimeValue (getTime (now sample_env)))
   \<and> post_bookings sample_runtime sample_env [weekdays_8_to_17] [] 7 instant_request
       = (failure 400 ''Health professional is not available at this time'', [])"
  by (simp add: post_booking_defs runtime_defs booking_sample_defs env_defs)

theorem post_bookings_weekday_option_witness:
  "booking_validators sample_runtime sample_booking_request = []
   \<and> parseDate sample_runtime ''2030-01-14T10:00'' = TimeValue 1894615200000
   \<and> post_bookings sample_runtime sample_env [weekdays_8_to_17] [] 7 sample_booking_request
       = (failure 500 ''Server error'', [])
   \<and> parseDate sample_runtime ''2030-01-14T10:00:00ZT10:00'' = InvalidDate
   \<and> post_bookings sample_runtime sample_env [weekdays_8_to_17] [] 7 instant_request
       = (failure 400 ''Health professional is not available at this time'', [])"
  using post_bookings_weekday_option[of sample_runtime sample_booking_request "[weekdays_8_to_17]"
      weekdays_8_to_17 sample_env "[]" 7]
    post_bookings_weekday_option[of sample_runtime instant_request "[weekdays_8_to_17]"
      weekdays_8_to_17 sample_env "[]" 7]
  by (simp add: post_booking_defs runtime_defs booking_sample_defs env_defs)




text \<open>
  The conflict query finds a booking exactly when a stored booking has the professional, the
  appointment date, the appointment time string and a status of pending or confirmed.
\<close>

lemma find_conflicting_iff:
  "find_conflicting coll p d t \<noteq> None \<longleftrightarrow>
     (\<exists>b \<in> set coll. b_healthProfessional b = p \<and> b_appointmentDate b = d
        \<and> b_appointmentTime b = t \<and> b_status b \<in> {Pending, Confirmed})"
  by (auto simp: find_conflicting_def find_None_iff)

text \<open>
  C2 on the code: a request for the professional, date and time of a stored pending booking,
  which the conflict query would find, is answered 500 by the failure of the weekday
  formatting, before the conflict check.
\<close>

theorem post_bookings_conflict_unreached:
  "booking_validators sample_runtime sample_booking_request = []
   \<and> parseDate sample_runtime (bq_appointmentDate sample_booking_request) = TimeValue 1894579200000
   \<and> find_conflicting [sample_booking] (bq_healthProfessionalId sample_booking_request)
        1894579200000 (bq_appointmentTime sample_booking_request) = Some sample_booking
   \<and> b_status sample_booking = Pending
   \<and> post_bookings sample_runtime sample_env [weekdays_8_to_17] [sample_booking] 7
        sample_booking_request
       = (failure 500 ''Server error'', [sample_booking])"
  by (simp add: post_booking_defs runtime_defs booking_sample_defs env_defs)

text \<open>
  C8 on the code: a request with a service priced 800 passes the validators, names an active
  professional who is available on that Monday at 10:00, lies in the future and meets no
  stored booking; it is answered 500 by the failure of the weekday formatting, and no booking
  with an amount and a status is stored.
\<close>

theorem post_bookings_amount_unreached:
  "booking_validators sample_runtime vaccination_request = []
   \<and> bq_service vaccination_request = Some \<lparr>sv_name = Some ''Vaccination'', sv_price = Some 800\<rparr>
   \<and> \<not> date_le (parseDate sample_runtime ''2030-01-14T10:00'')
            (TimeValue (getTime (now sample_env)))
   \<and> isAvailable sample_runtime weekdays_8_to_17 ''monday'' ''10:00''
   \<and> post_bookings sample_runtime sample_env [weekdays_8_to_17] [] 7 vaccination_request
       = (failure 500 ''Server error'', [])"
  by (simp add: post_booking_defs runtime_defs booking_sample_defs env_defs)

end
